theory Spec2Isabelle
  imports Complex_Main
begin

section \<open>Drought indices (indices.py): a shallow embedding\<close>

subsection \<open>Array elements\<close>

text \<open>
  An element of a numpy \<open>float64\<close> array is the missing-value marker \<open>NaN\<close>, one of the
  two infinities, or a finite number. Finite arithmetic is exact arithmetic on the reals
  (rounding, overflow to infinity and the sign of zero are not modelled); the special
  values follow IEEE 754, which is what numpy computes on \<open>float64\<close> scalars and arrays
  (it warns where Python's own floats would raise, and returns the value).
\<close>

datatype float64 = NaN | NInf | Fin real | PInf

fun isnan :: "float64 \<Rightarrow> bool" where
  "isnan NaN = True"
| "isnan _ = False"

text \<open>The comparison \<open>a < b\<close>: false as soon as one side is \<open>NaN\<close>.\<close>

fun fless :: "float64 \<Rightarrow> float64 \<Rightarrow> bool" where
  "fless (Fin x) (Fin y) = (x < y)"
| "fless NInf (Fin y) = True"
| "fless NInf PInf = True"
| "fless (Fin x) PInf = True"
| "fless _ _ = False"

text \<open>The comparison \<open>a > b\<close>.\<close>

definition fgreater :: "float64 \<Rightarrow> float64 \<Rightarrow> bool" where
  "fgreater a b = fless b a"

fun fneg :: "float64 \<Rightarrow> float64" where
  "fneg NaN = NaN"
| "fneg NInf = PInf"
| "fneg (Fin x) = Fin (- x)"
| "fneg PInf = NInf"

fun fadd :: "float64 \<Rightarrow> float64 \<Rightarrow> float64" where
  "fadd NaN _ = NaN"
| "fadd _ NaN = NaN"
| "fadd (Fin x) (Fin y) = Fin (x + y)"
| "fadd PInf NInf = NaN"
| "fadd NInf PInf = NaN"
| "fadd PInf _ = PInf"
| "fadd _ PInf = PInf"
| "fadd NInf _ = NInf"
| "fadd _ NInf = NInf"

definition fsub :: "float64 \<Rightarrow> float64 \<Rightarrow> float64" where
  "fsub a b = fadd a (fneg b)"

fun fdiv :: "float64 \<Rightarrow> float64 \<Rightarrow> float64" where
  "fdiv NaN _ = NaN"
| "fdiv _ NaN = NaN"
| "fdiv (Fin x) (Fin y) =
     (if y = 0 then (if x = 0 then NaN else if 0 < x then PInf else NInf)
      else Fin (x / y))"
| "fdiv (Fin x) _ = Fin 0"
| "fdiv PInf (Fin y) = (if y < 0 then NInf else PInf)"
| "fdiv NInf (Fin y) = (if y < 0 then PInf else NInf)"
| "fdiv _ _ = NaN"

subsection \<open>Errors\<close>

text \<open>
  Every \<open>raise\<close> of the source is a value \<open>Inl e\<close>: \<open>ValueError\<close> carries the message of the
  source (the latitude message without the formatted number) or of numpy, \<open>TypeError\<close>
  is what Python raises when an array is subtracted from or by \<open>None\<close>, and
  \<open>ContractViolation\<close> stands for a call the specification of a collaborator excludes.
\<close>

datatype error = ValueError string | TypeError string | ContractViolation string

text \<open>
  The messages, each named once: those of \<open>indices.py\<close> word for word, then the ones
  that stand for the message of Python, of numpy and of the scaling collaborator.
\<close>

definition msg_temperature_and_pet :: string where
  "msg_temperature_and_pet = ''Incompatible arguments: either temperature or PET arrays can be specified as arguments, but not both''"

definition msg_pet_and_temperature :: string where
  "msg_pet_and_temperature = ''Incompatible arguments: either temperature or PET arrays can be specified as arguments, but not both.''"

definition msg_missing_arguments :: string where
  "msg_missing_arguments = ''Missing arguments: since temperature is provided as an input then both latitude and the data start year must also be specified, and one or both is not''"

definition msg_temperature_arrays :: string where
  "msg_temperature_arrays = ''Incompatible precipitation and temperature arrays''"

definition msg_extraneous_gamma :: string where
  "msg_extraneous_gamma = ''Extraneous arguments: since PET is provided as an input then both latitude and the data start year must not also be specified, and one or both is.''"

definition msg_extraneous_pearson :: string where
  "msg_extraneous_pearson = ''Extraneous arguments: since PET is provided as an input then latitude must not also be specified.''"

definition msg_pet_arrays :: string where
  "msg_pet_arrays = ''Incompatible precipitation and PET arrays''"

definition msg_invalid_latitude :: string where
  "msg_invalid_latitude = ''Invalid latitude value (must be in degrees north, between -90.0 and 90.0 inclusive)''"

definition msg_calibration_start :: string where
  "msg_calibration_start = ''Invalid start year arguments (data and/or calibration): calibration start year is before the data start year''"

definition msg_calibration_period :: string where
  "msg_calibration_period = ''Invalid calibration period specified: total calibration years exceeds the actual number of years of data''"

definition msg_none_operand :: string where
  "msg_none_operand = ''unsupported operand type(s) for -''"

definition msg_broadcast :: string where
  "msg_broadcast = ''operands could not be broadcast together''"

definition msg_ambiguous_truth :: string where
  "msg_ambiguous_truth = ''The truth value of an array with more than one element is ambiguous. Use a.any() or a.all()''"

definition msg_scale :: string where
  "msg_scale = ''sum_to_scale: scale <= 0''"

subsection \<open>numpy and Python operations used by the drivers\<close>

text \<open>\<open>np.isnan\<close> followed by \<open>np.all\<close>: true on the empty array.\<close>

definition np_all_isnan :: "float64 list \<Rightarrow> bool" where
  "np_all_isnan xs = list_all isnan xs"

text \<open>\<open>np.maximum\<close>, \<open>np.minimum\<close> on one element: \<open>NaN\<close> propagates.\<close>

definition np_maximum :: "float64 \<Rightarrow> float64 \<Rightarrow> float64" where
  "np_maximum a b = (if isnan a \<or> isnan b then NaN else if fless a b then b else a)"

definition np_minimum :: "float64 \<Rightarrow> float64 \<Rightarrow> float64" where
  "np_minimum a b = (if isnan a \<or> isnan b then NaN else if fless b a then b else a)"

text \<open>
  \<open>np.clip(a, a_min, a_max)\<close> is \<open>minimum(a_max, maximum(a, a_min))\<close>, element by element.
  An array is represented by its elements in row-major order, which is the order
  \<open>flatten()\<close> returns them in; \<open>np.clip\<close> followed by \<open>flatten\<close> is then \<open>np_clip\<close>.
\<close>

definition np_clip :: "float64 list \<Rightarrow> float64 \<Rightarrow> float64 \<Rightarrow> float64 list" where
  "np_clip xs a_min a_max = map (\<lambda>x. np_minimum (np_maximum x a_min) a_max) xs"

text \<open>Summation from \<open>0.0\<close>, left to right.\<close>

definition np_sum :: "float64 list \<Rightarrow> float64" where
  "np_sum xs = foldl fadd (Fin 0) xs"

text \<open>
  \<open>np.nanmean\<close>: the sum of the elements that are not \<open>NaN\<close> over their number; on an
  empty or all-\<open>NaN\<close> array this is \<open>0.0 / 0\<close>, that is \<open>NaN\<close> (numpy warns, it does
  not raise).
\<close>

definition np_nanmean :: "float64 list \<Rightarrow> float64" where
  "np_nanmean xs =
     (let ys = filter (\<lambda>x. \<not> isnan x) xs
      in fdiv (np_sum ys) (Fin (real (length ys))))"

text \<open>
  A slice bound of Python: a negative bound counts from the end, and every bound is
  clamped to the array.
\<close>

definition py_slice_bound :: "int \<Rightarrow> nat \<Rightarrow> nat" where
  "py_slice_bound k n = (if k < 0 then nat (max 0 (k + int n)) else min (nat k) n)"

text \<open>\<open>xs[lo:hi]\<close>; never raises, empty when the bounds cross.\<close>

definition py_slice :: "'a list \<Rightarrow> int \<Rightarrow> int \<Rightarrow> 'a list" where
  "py_slice xs lo hi =
     (let l = py_slice_bound lo (length xs); h = py_slice_bound hi (length xs)
      in take (h - l) (drop l xs))"

text \<open>\<open>xs[i::k]\<close> for \<open>0 \<le> i\<close> and \<open>0 < k\<close>: the elements at \<open>i, i + k, i + 2k, ...\<close> below the length.\<close>

definition py_stride :: "'a list \<Rightarrow> nat \<Rightarrow> nat \<Rightarrow> 'a list" where
  "py_stride xs i k = map (\<lambda>t. xs ! (i + t * k)) [0..<(length xs + k - 1 - i) div k]"

text \<open>
  \<open>a - b\<close> on one-dimensional arrays, where \<open>b\<close> may be \<open>None\<close>: Python raises a
  \<open>TypeError\<close> for \<open>None\<close>; arrays of equal length are subtracted element by element, an
  array of length one is broadcast, and any other pair of lengths raises a \<open>ValueError\<close>.
\<close>

definition np_subtract :: "float64 list \<Rightarrow> float64 list option \<Rightarrow> error + float64 list" where
  "np_subtract xs yo =
     (case yo of
        None \<Rightarrow> Inl (TypeError msg_none_operand)
      | Some ys \<Rightarrow>
          if length xs = length ys then Inr (map (\<lambda>(x, y). fsub x y) (zip xs ys))
          else if length ys = 1 then Inr (map (\<lambda>x. fsub x (hd ys)) xs)
          else if length xs = 1 then Inr (map (\<lambda>y. fsub (hd xs) y) ys)
          else Inl (ValueError msg_broadcast))"

text \<open>
  \<open>x != None\<close> as the condition of an \<open>if\<close>, where \<open>x\<close> is \<open>None\<close> or an array. \<open>None != None\<close>
  is \<open>False\<close>. On an array numpy compares element by element, and no element equals
  \<open>None\<close>: the result is an array of \<open>True\<close>, whose truth value is \<open>True\<close> when it has
  exactly one element; for an array of any other length taking the truth value raises a
  \<open>ValueError\<close> (for the empty array numpy words the message differently; the same
  constant stands for both).
\<close>

definition array_ne_None :: "float64 list option \<Rightarrow> error + bool" where
  "array_ne_None x =
     (case x of
        None \<Rightarrow> Inr False
      | Some xs \<Rightarrow> if length xs = 1 then Inr True else Inl (ValueError msg_ambiguous_truth))"

text \<open>An \<open>if\<close> whose condition may raise: the error of the condition, or the branch taken.\<close>

definition py_if :: "error + bool \<Rightarrow> error + 'a \<Rightarrow> error + 'a \<Rightarrow> error + 'a" where
  "py_if c a b = (case c of Inl e \<Rightarrow> Inl e | Inr t \<Rightarrow> if t then a else b)"

subsection \<open>Collaborators\<close>

text \<open>
  Modelled from the spec: \<open>compute.sum_to_scale\<close> is called by every driver and is not
  among the sources. The specification (4.1) gives it in full: the result has the length
  of the input; entry \<open>i\<close> is the missing marker for \<open>i < scale - 1\<close> and otherwise the sum
  of the entries \<open>i - scale + 1 .. i\<close>, a missing entry making the sum missing; a valid
  positive scale has no error condition, and a scale \<open>\<le> 0\<close> is a contract violation.
\<close>

definition sum_to_scale :: "float64 list \<Rightarrow> int \<Rightarrow> error + float64 list" where
  "sum_to_scale series scale =
     (if scale \<le> 0 then Inl (ContractViolation msg_scale)
      else Inr (map (\<lambda>i. if int i < scale - 1 then NaN
                          else np_sum (take (nat scale) (drop (i + 1 - nat scale) series)))
                    [0..<length series]))"

text \<open>
  The fitting transforms \<open>compute.transform_fitted_gamma\<close> and
  \<open>compute.transform_fitted_pearson\<close> (incomplete gamma function, normal quantile) and
  the Thornthwaite equation \<open>thornthwaite.potential_evapotranspiration\<close> are parameters
  of the drivers: each takes what the source passes it and returns an error or an
  array, given by its elements in row-major order.
\<close>

type_synonym gamma_transform = "float64 list \<Rightarrow> error + float64 list"

type_synonym pearson_transform = "float64 list \<Rightarrow> int \<Rightarrow> int \<Rightarrow> int \<Rightarrow> error + float64 list"

type_synonym thornthwaite = "float64 list \<Rightarrow> float64 \<Rightarrow> int \<Rightarrow> error + float64 list"

subsection \<open>The drivers\<close>

text \<open>
  Each driver is the Python function of \<open>indices.py\<close> of the same name, its
  collaborators first, then its arguments in the order of the source; the \<open>@jit\<close>
  decorators compile the functions and are not part of what they compute, and the
  calls to the logger are left out. The bounds \<open>-3.09\<close> and \<open>3.09\<close> are the numbers
  \<open>-309/100\<close> and \<open>309/100\<close>.
\<close>

definition FITTED_INDEX_VALID_MIN :: float64 where
  "FITTED_INDEX_VALID_MIN = Fin (- (309 / 100))"

definition FITTED_INDEX_VALID_MAX :: float64 where
  "FITTED_INDEX_VALID_MAX = Fin (309 / 100)"

text \<open>
  \<open>pet\<close>: an all-missing temperature array is returned as it is, before the latitude is
  looked at; otherwise the latitude must be a number strictly between \<open>-90\<close> and \<open>90\<close>.
\<close>

definition pet :: "thornthwaite \<Rightarrow> float64 list \<Rightarrow> float64 \<Rightarrow> int \<Rightarrow> error + float64 list" where
  "pet potential_evapotranspiration temperature_monthly_celsius latitude_degrees data_start_year =
     (if \<not> np_all_isnan temperature_monthly_celsius then
        (if \<not> isnan latitude_degrees \<and> fless latitude_degrees (Fin 90)
              \<and> fgreater latitude_degrees (Fin (- 90))
         then potential_evapotranspiration temperature_monthly_celsius latitude_degrees
                data_start_year
         else Inl (ValueError msg_invalid_latitude))
      else Inr temperature_monthly_celsius)"

text \<open>
  \<open>percentage_of_normal\<close>. The two loops of the source write one cell of an array
  pre-filled with \<open>NaN\<close> per iteration; they are folds over the range, with the array
  as the state. The defaults \<open>1981\<close> and \<open>2010\<close> of the calibration years are passed
  by the caller.
\<close>

definition percentage_of_normal ::
  "float64 list \<Rightarrow> int \<Rightarrow> int \<Rightarrow> int \<Rightarrow> int \<Rightarrow> error + float64 list" where
  "percentage_of_normal monthly_values months_scale data_start_year calibration_start_year
       calibration_end_year =
     (if data_start_year > calibration_start_year then
        Inl (ValueError msg_calibration_start)
      else if (calibration_end_year - calibration_start_year + 1) * 12
                > int (length monthly_values) then
        Inl (ValueError msg_calibration_period)
      else
        (case sum_to_scale monthly_values months_scale of
           Inl e \<Rightarrow> Inl e
         | Inr months_scale_sums \<Rightarrow>
            (let calibration_years = calibration_end_year - calibration_start_year + 1;
                 calibration_start_index = (calibration_start_year - data_start_year) * 12;
                 calibration_end_index = calibration_start_index + calibration_years * 12;
                 calibration_period_sums =
                   py_slice months_scale_sums calibration_start_index calibration_end_index;
                 calendar_month_averages =
                   fold (\<lambda>i avgs. avgs[i := np_nanmean (py_stride calibration_period_sums i 12)])
                     [0..<12] (replicate 12 NaN);
                 percentages_of_normal =
                   fold (\<lambda>i pcts.
                           if fgreater (calendar_month_averages ! (i mod 12)) (Fin 0)
                           then pcts[i := fdiv (months_scale_sums ! i)
                                               (calendar_month_averages ! (i mod 12))]
                           else pcts)
                     [0..<length months_scale_sums]
                     (replicate (length months_scale_sums) NaN)
             in Inr percentages_of_normal)))"

text \<open>
  \<open>spi_gamma\<close> and \<open>spi_pearson\<close>: scale, fit and transform, clip, flatten, and cut to
  the length of the input (\<open>spi[0:original_length]\<close>, a slice from \<open>0\<close> to a length, is
  \<open>take\<close>).
\<close>

definition spi_gamma :: "gamma_transform \<Rightarrow> float64 list \<Rightarrow> int \<Rightarrow> error + float64 list" where
  "spi_gamma transform_fitted_gamma precips months_scale =
     (let original_length = length precips
      in case sum_to_scale precips months_scale of
           Inl e \<Rightarrow> Inl e
         | Inr scaled_precips \<Rightarrow>
            (case transform_fitted_gamma scaled_precips of
               Inl e \<Rightarrow> Inl e
             | Inr transformed_fitted_values \<Rightarrow>
                (let spi = np_clip transformed_fitted_values
                             FITTED_INDEX_VALID_MIN FITTED_INDEX_VALID_MAX
                 in Inr (take original_length spi))))"

definition spi_pearson ::
  "pearson_transform \<Rightarrow> float64 list \<Rightarrow> int \<Rightarrow> int \<Rightarrow> int \<Rightarrow> int \<Rightarrow> error + float64 list" where
  "spi_pearson transform_fitted_pearson precips months_scale data_start_year
       calibration_year_initial calibration_year_final =
     (let original_length = length precips
      in case sum_to_scale precips months_scale of
           Inl e \<Rightarrow> Inl e
         | Inr scaled_precips \<Rightarrow>
            (case transform_fitted_pearson scaled_precips data_start_year
                    calibration_year_initial calibration_year_final of
               Inl e \<Rightarrow> Inl e
             | Inr transformed_fitted_values \<Rightarrow>
                (let spi = np_clip transformed_fitted_values
                             FITTED_INDEX_VALID_MIN FITTED_INDEX_VALID_MAX
                 in Inr (take original_length spi))))"

text \<open>
  \<open>spei_gamma\<close>. An optional argument is an \<open>option\<close>. The arrays \<open>temps_celsius\<close> and
  \<open>pet_mm\<close> are tested with \<open>!= None\<close> (lines 133, 136, 157, 160), which raises for an
  array that does not have exactly one element; the latitude and the start year are
  scalars, for which \<open>!= None\<close> and \<open>== None\<close> are plain tests. The first argument of the
  outer \<open>case\<close> is the validation of the argument combination, in the order of the
  source: its result is the error raised there, or the value of \<open>pet_mm\<close> after it
  (computed by \<open>pet\<close> on the temperature path, the argument itself otherwise, \<open>None\<close>
  when neither array was given, since no branch of the validation is entered then).
  Where a branch is entered the array it reads was tested to be an array, so the
  \<open>case\<close> on it that gives the array a name has one live branch only.
\<close>

definition spei_gamma ::
  "gamma_transform \<Rightarrow> thornthwaite \<Rightarrow> int \<Rightarrow> float64 list \<Rightarrow> float64 list option
     \<Rightarrow> float64 list option \<Rightarrow> int option \<Rightarrow> float64 option \<Rightarrow> error + float64 list" where
  "spei_gamma transform_fitted_gamma potential_evapotranspiration months_scale precips_mm
       pet_mm temps_celsius data_start_year latitude_degrees =
     (case
        py_if (array_ne_None temps_celsius)
          (py_if (array_ne_None pet_mm)
             (Inl (ValueError msg_temperature_and_pet))
             (if latitude_degrees = None \<or> data_start_year = None then
                Inl (ValueError msg_missing_arguments)
              else
                (case (temps_celsius, latitude_degrees, data_start_year) of
                   (Some temps, Some latitude, Some start_year) \<Rightarrow>
                     (if length precips_mm \<noteq> length temps then
                        Inl (ValueError msg_temperature_arrays)
                      else
                        (case pet potential_evapotranspiration temps latitude start_year of
                           Inl e \<Rightarrow> Inl e
                         | Inr computed \<Rightarrow> Inr (Some computed)))
                 | _ \<Rightarrow> Inl (ValueError msg_missing_arguments))))
          (py_if (array_ne_None pet_mm)
             (py_if (array_ne_None temps_celsius)
                (Inl (ValueError msg_pet_and_temperature))
                (if latitude_degrees \<noteq> None \<or> data_start_year \<noteq> None then
                   Inl (ValueError msg_extraneous_gamma)
                 else
                   (case pet_mm of
                      Some given \<Rightarrow>
                        (if length precips_mm \<noteq> length given then
                           Inl (ValueError msg_pet_arrays)
                         else Inr pet_mm)
                    | None \<Rightarrow> Inr pet_mm)))
             (Inr pet_mm))
      of
        Inl e \<Rightarrow> Inl e
      | Inr pet_values \<Rightarrow>
         (case np_subtract precips_mm pet_values of
            Inl e \<Rightarrow> Inl e
          | Inr difference \<Rightarrow>
             (let p_minus_pet = map (\<lambda>x. fadd x (Fin 1000)) difference;
                  original_length = length precips_mm
              in case sum_to_scale p_minus_pet months_scale of
                   Inl e \<Rightarrow> Inl e
                 | Inr scaled_values \<Rightarrow>
                    (case transform_fitted_gamma scaled_values of
                       Inl e \<Rightarrow> Inl e
                     | Inr transformed_fitted_values \<Rightarrow>
                        (let spei = np_clip transformed_fitted_values
                                      FITTED_INDEX_VALID_MIN FITTED_INDEX_VALID_MAX
                         in Inr (take original_length spei))))))"

text \<open>
  \<open>spei_pearson\<close>: the data start year is a required argument here, and the validation
  looks at the latitude only. The arrays are tested with \<open>!= None\<close> in the same way
  (lines 241, 244, 265, 268).
\<close>

definition spei_pearson ::
  "pearson_transform \<Rightarrow> thornthwaite \<Rightarrow> int \<Rightarrow> int \<Rightarrow> float64 list \<Rightarrow> float64 list option
     \<Rightarrow> float64 list option \<Rightarrow> float64 option \<Rightarrow> int \<Rightarrow> int \<Rightarrow> error + float64 list" where
  "spei_pearson transform_fitted_pearson potential_evapotranspiration months_scale
       data_start_year precips_mm pet_mm temps_celsius latitude_degrees
       calibration_year_initial calibration_year_final =
     (case
        py_if (array_ne_None temps_celsius)
          (py_if (array_ne_None pet_mm)
             (Inl (ValueError msg_temperature_and_pet))
             (if latitude_degrees = None then
                Inl (ValueError msg_missing_arguments)
              else
                (case (temps_celsius, latitude_degrees) of
                   (Some temps, Some latitude) \<Rightarrow>
                     (if length precips_mm \<noteq> length temps then
                        Inl (ValueError msg_temperature_arrays)
                      else
                        (case pet potential_evapotranspiration temps latitude data_start_year of
                           Inl e \<Rightarrow> Inl e
                         | Inr computed \<Rightarrow> Inr (Some computed)))
                 | _ \<Rightarrow> Inl (ValueError msg_missing_arguments))))
          (py_if (array_ne_None pet_mm)
             (py_if (array_ne_None temps_celsius)
                (Inl (ValueError msg_pet_and_temperature))
                (if latitude_degrees \<noteq> None then
                   Inl (ValueError msg_extraneous_pearson)
                 else
                   (case pet_mm of
                      Some given \<Rightarrow>
                        (if length precips_mm \<noteq> length given then
                           Inl (ValueError msg_pet_arrays)
                         else Inr pet_mm)
                    | None \<Rightarrow> Inr pet_mm)))
             (Inr pet_mm))
      of
        Inl e \<Rightarrow> Inl e
      | Inr pet_values \<Rightarrow>
         (case np_subtract precips_mm pet_values of
            Inl e \<Rightarrow> Inl e
          | Inr difference \<Rightarrow>
             (let p_minus_pet = map (\<lambda>x. fadd x (Fin 1000)) difference;
                  original_length = length precips_mm
              in case sum_to_scale p_minus_pet months_scale of
                   Inl e \<Rightarrow> Inl e
                 | Inr scaled_values \<Rightarrow>
                    (case transform_fitted_pearson scaled_values data_start_year
                            calibration_year_initial calibration_year_final of
                       Inl e \<Rightarrow> Inl e
                     | Inr transformed_fitted_values \<Rightarrow>
                        (let spei = np_clip transformed_fitted_values
                                      FITTED_INDEX_VALID_MIN FITTED_INDEX_VALID_MAX
                         in Inr (take original_length spei))))))"

subsection \<open>Notions of the specification\<close>

text \<open>
  An index value is valid when it is a number of the interval \<open>[-3.09, 3.09]\<close>; a
  returned value is acceptable when it is valid or the missing marker.
\<close>

definition in_valid_range :: "float64 \<Rightarrow> bool" where
  "in_valid_range v = (case v of Fin x \<Rightarrow> - (309 / 100) \<le> x \<and> x \<le> 309 / 100 | _ \<Rightarrow> False)"

definition valid_or_missing :: "float64 \<Rightarrow> bool" where
  "valid_or_missing v = (isnan v \<or> in_valid_range v)"



text \<open>
  Month \<open>j\<close> of a series that starts in January of \<open>data_start_year\<close> lies in the year
  \<open>data_start_year + j div 12\<close> and is the calendar month \<open>j mod 12\<close>. The calibration
  months of a series of \<open>n\<close> months are those of the years \<open>calibration_start_year\<close> to
  \<open>calibration_end_year\<close>, both included.
\<close>

definition calibration_months :: "nat \<Rightarrow> int \<Rightarrow> int \<Rightarrow> int \<Rightarrow> nat list" where
  "calibration_months n data_start_year calibration_start_year calibration_end_year =
     filter (\<lambda>j. calibration_start_year \<le> data_start_year + int (j div 12)
                  \<and> data_start_year + int (j div 12) \<le> calibration_end_year)
       [0..<n]"

text \<open>
  The calendar-month average of the specification: the mean, missing values ignored,
  of the scaled sums of the calibration months that fall on calendar month \<open>m\<close>.
\<close>

definition calendar_month_average :: "float64 list \<Rightarrow> int \<Rightarrow> int \<Rightarrow> int \<Rightarrow> nat \<Rightarrow> float64" where
  "calendar_month_average scaled_sums data_start_year calibration_start_year calibration_end_year m =
     np_nanmean
       (map (\<lambda>j. scaled_sums ! j)
          (filter (\<lambda>j. j mod 12 = m)
             (calibration_months (length scaled_sums) data_start_year calibration_start_year
                calibration_end_year)))"

text \<open>
  The average the source stores in \<open>calendar_month_averages[m]\<close>, as a function of the
  scaled sums: the mean of every twelfth element, from \<open>m\<close> on, of the slice of the
  calibration period.
\<close>

definition calibration_period_average :: "float64 list \<Rightarrow> int \<Rightarrow> int \<Rightarrow> int \<Rightarrow> nat \<Rightarrow> float64" where
  "calibration_period_average scaled_sums data_start_year calibration_start_year
       calibration_end_year m =
     np_nanmean
       (py_stride
          (py_slice scaled_sums ((calibration_start_year - data_start_year) * 12)
             ((calibration_start_year - data_start_year) * 12
                + (calibration_end_year - calibration_start_year + 1) * 12))
          m 12)"

text \<open>A latitude the specification accepts: a number strictly between \<open>-90\<close> and \<open>90\<close>.\<close>

definition latitude_in_range :: "float64 \<Rightarrow> bool" where
  "latitude_in_range latitude = (case latitude of Fin x \<Rightarrow> - 90 < x \<and> x < 90 | _ \<Rightarrow> False)"

text \<open>
  The contract of the Thornthwaite collaborator, as the docstring of \<open>pet\<close> states it:
  the PET array has the size of the temperature array.
\<close>

definition preserves_length :: "thornthwaite \<Rightarrow> bool" where
  "preserves_length potential_evapotranspiration =
     (\<forall>temps latitude year out.
        potential_evapotranspiration temps latitude year = Inr out \<longrightarrow> length out = length temps)"

section \<open>Properties\<close>

subsection \<open>The scaling collaborator and the array operations\<close>

lemma sum_to_scale_example:
  "sum_to_scale [Fin 1, Fin 2, Fin 3, Fin 4, Fin 5] 3 = Inr [NaN, NaN, Fin 6, Fin 9, Fin 12]"
  by (simp add: sum_to_scale_def np_sum_def upt_rec)

lemma sum_to_scale_length: "sum_to_scale xs k = Inr sc \<Longrightarrow> length sc = length xs"
  by (auto simp: sum_to_scale_def split: if_splits)

lemma sum_to_scale_positive: "0 < k \<Longrightarrow> \<exists>sc. sum_to_scale xs k = Inr sc"
  by (simp add: sum_to_scale_def)

lemma sum_to_scale_no_ValueError: "sum_to_scale xs k \<noteq> Inl (ValueError m)"
  by (simp add: sum_to_scale_def)

lemma clip_valid:
  "valid_or_missing (np_minimum (np_maximum x FITTED_INDEX_VALID_MIN) FITTED_INDEX_VALID_MAX)"
  by (cases x) (auto simp: valid_or_missing_def in_valid_range_def np_minimum_def np_maximum_def
      FITTED_INDEX_VALID_MIN_def FITTED_INDEX_VALID_MAX_def)

lemma np_clip_valid:
  "x \<in> set (take n (np_clip xs FITTED_INDEX_VALID_MIN FITTED_INDEX_VALID_MAX)) \<Longrightarrow> valid_or_missing x"
  by (auto simp: np_clip_def clip_valid dest!: in_set_takeD)


lemma pet_length:
  "preserves_length tw \<Longrightarrow> pet tw temps lat y = Inr p \<Longrightarrow> length p = length temps"
  by (auto simp: pet_def preserves_length_def split: if_splits)

lemma np_subtract_length:
  "np_subtract xs (Some ys) = Inr d \<Longrightarrow> length xs = length ys \<Longrightarrow> length d = length xs"
  by (auto simp: np_subtract_def)

lemma np_subtract_None: "np_subtract xs None \<noteq> Inr d"
  by (simp add: np_subtract_def)

text \<open>
  The two loops of \<open>percentage_of_normal\<close>: a fold that writes cell \<open>i\<close> at step \<open>i\<close>
  keeps the length of the array and leaves in cell \<open>i\<close> what step \<open>i\<close> wrote.
\<close>

lemma fold_update_length:
  "length (fold (\<lambda>i a. if c i then a[i := f i] else a) js a0) = length a0"
  by (induction js arbitrary: a0) auto

lemma fold_update_nth:
  "i < length a0 \<Longrightarrow>
   fold (\<lambda>i a. if c i then a[i := f i] else a) js a0 ! i
     = (if i \<in> set js \<and> c i then f i else a0 ! i)"
  by (induction js arbitrary: a0) (auto, metis nth_list_update_neq)

lemma fold_assign_nth:
  "i < length a0 \<Longrightarrow>
   fold (\<lambda>i a. a[i := f i]) js a0 ! i = (if i \<in> set js then f i else a0 ! i)"
  using fold_update_nth[of i a0 "\<lambda>_. True" f js] by simp

subsection \<open>What a driver returns when it returns\<close>

text \<open>
  Each fitted-index driver that returns has scaled, transformed, clipped and cut: the
  result is a prefix of a clipped array. For the SPEI drivers the array that was scaled
  has the length of the precipitation array as soon as the Thornthwaite collaborator
  keeps the length of the temperature array.
\<close>

lemma spi_gamma_shape:
  assumes "spi_gamma tfg precips k = Inr out"
  shows "\<exists>sc tv. sum_to_scale precips k = Inr sc \<and> tfg sc = Inr tv
           \<and> out = take (length precips) (np_clip tv FITTED_INDEX_VALID_MIN FITTED_INDEX_VALID_MAX)"
  using assms by (auto simp: spi_gamma_def Let_def split: sum.splits)

lemma spi_pearson_shape:
  assumes "spi_pearson tfp precips k dsy cyi cyf = Inr out"
  shows "\<exists>sc tv. sum_to_scale precips k = Inr sc \<and> tfp sc dsy cyi cyf = Inr tv
           \<and> out = take (length precips) (np_clip tv FITTED_INDEX_VALID_MIN FITTED_INDEX_VALID_MAX)"
  using assms by (auto simp: spi_pearson_def Let_def split: sum.splits)

lemma spei_gamma_shape:
  assumes "spei_gamma tfg tw k precips pet_mm temps dsy lat = Inr out"
  shows "\<exists>d sc tv. sum_to_scale (map (\<lambda>x. fadd x (Fin 1000)) d) k = Inr sc \<and> tfg sc = Inr tv
           \<and> out = take (length precips) (np_clip tv FITTED_INDEX_VALID_MIN FITTED_INDEX_VALID_MAX)
           \<and> (preserves_length tw \<longrightarrow> length d = length precips)"
  using assms
  apply (cases temps; cases pet_mm; cases lat; cases dsy)
  apply (auto simp: spei_gamma_def py_if_def array_ne_None_def Let_def np_subtract_None
      split: if_splits sum.splits)
   apply (metis np_subtract_length)
  apply (metis np_subtract_length pet_length)
  done

lemma spei_pearson_shape:
  assumes "spei_pearson tfp tw k dsy precips pet_mm temps lat cyi cyf = Inr out"
  shows "\<exists>d sc tv. sum_to_scale (map (\<lambda>x. fadd x (Fin 1000)) d) k = Inr sc
           \<and> tfp sc dsy cyi cyf = Inr tv
           \<and> out = take (length precips) (np_clip tv FITTED_INDEX_VALID_MIN FITTED_INDEX_VALID_MAX)
           \<and> (preserves_length tw \<longrightarrow> length d = length precips)"
  using assms
  apply (cases temps; cases pet_mm; cases lat)
  apply (auto simp: spei_pearson_def py_if_def array_ne_None_def Let_def np_subtract_None
      split: if_splits sum.splits)
   apply (metis np_subtract_length)
  apply (metis np_subtract_length pet_length)
  done

text \<open>
  Past its two checks, \<open>percentage_of_normal\<close> returns, cell by cell, the scaled sum
  over the average of the calendar month where that average is greater than zero, and
  the missing marker elsewhere.
\<close>

lemma percentage_of_normal_result:
  assumes "dsy \<le> csy" and "(cey - csy + 1) * 12 \<le> int (length xs)"
    and "sum_to_scale xs k = Inr sc"
  shows "percentage_of_normal xs k dsy csy cey =
     Inr (map (\<lambda>i. if fgreater (calibration_period_average sc dsy csy cey (i mod 12)) (Fin 0)
                    then fdiv (sc ! i) (calibration_period_average sc dsy csy cey (i mod 12))
                    else NaN) [0..<length sc])"
proof -
  have avg: "fold (\<lambda>i avgs. avgs[i := np_nanmean (py_stride cps i 12)]) [0..<12] (replicate 12 NaN)
               ! (i mod 12)
             = np_nanmean (py_stride cps (i mod 12) 12)" for cps :: "float64 list" and i :: nat
    by (subst fold_assign_nth) simp_all
  show ?thesis
    using assms
    by (auto simp: percentage_of_normal_def Let_def avg calibration_period_average_def
        fold_update_length fold_update_nth intro!: nth_equalityI)
qed

subsection \<open>The calendar-month averages\<close>

text \<open>
  The slice of the calibration period, read with a stride of twelve from \<open>m\<close>, holds the
  scaled sums of the calibration months that fall on calendar month \<open>m\<close>, in order: the
  average the source computes is the calendar-month average of the specification, for
  every window that starts no earlier than the data and does not end before it starts.
\<close>

lemma less_div_twelve: "(t < x div 12) = (Suc t * 12 \<le> (x :: nat))"
  by (simp add: Suc_le_eq[symmetric] less_eq_div_iff_mult_less_eq del: mult_Suc)

lemma every_twelfth_set:
  fixes L m h :: nat
  assumes "L mod 12 = 0" and "m < 12"
  shows "{j. L \<le> j \<and> j < h \<and> j mod 12 = m}
           = (\<lambda>t. L + m + t * 12) ` {t. t < (h - L + 12 - 1 - m) div 12}"
proof (intro set_eqI iffI)
  fix j assume "j \<in> {j. L \<le> j \<and> j < h \<and> j mod 12 = m}"
  then have j: "L \<le> j" "j < h" "j mod 12 = m" by auto
  define d where "d = j - L"
  with j have jd: "j = L + d" by simp
  have "(L + d) mod 12 = d mod 12"
    using assms(1) mod_add_left_eq[of L 12 d] by simp
  with j jd have "d mod 12 = m" by simp
  with div_mult_mod_eq[of d 12] have "d = m + (d div 12) * 12" by simp
  then obtain t where t: "d = m + t * 12" ..
  with j jd have "Suc t * 12 \<le> h - L + 12 - 1 - m" by simp
  then have "t < (h - L + 12 - 1 - m) div 12" by (simp only: less_div_twelve)
  moreover from jd t have "j = L + m + t * 12" by simp
  ultimately show "j \<in> (\<lambda>t. L + m + t * 12) ` {t. t < (h - L + 12 - 1 - m) div 12}"
    by blast
next
  fix j assume "j \<in> (\<lambda>t. L + m + t * 12) ` {t. t < (h - L + 12 - 1 - m) div 12}"
  then obtain t where t: "j = L + m + t * 12" "t < (h - L + 12 - 1 - m) div 12" by auto
  from t(2) have "Suc t * 12 \<le> h - L + 12 - 1 - m" by (simp only: less_div_twelve)
  with t(1) assms(2) have "j < h" by simp
  moreover have "j mod 12 = m"
    using assms mod_add_left_eq[of L 12 m] by (simp add: t(1))
  ultimately show "j \<in> {j. L \<le> j \<and> j < h \<and> j mod 12 = m}"
    using t(1) by simp
qed

lemma every_twelfth:
  assumes "L mod 12 = 0" and "m < 12"
  shows "filter (\<lambda>j. j mod 12 = m) [L..<h]
           = map (\<lambda>t. L + m + t * 12) [0..<(h - L + 12 - 1 - m) div 12]"
proof (rule sorted_distinct_set_unique)
  show "sorted (filter (\<lambda>j. j mod 12 = m) [L..<h])"
    by (simp add: sorted_wrt_filter)
  show "distinct (filter (\<lambda>j. j mod 12 = m) [L..<h])"
    by simp
  show "sorted (map (\<lambda>t. L + m + t * 12) [0..<(h - L + 12 - 1 - m) div 12])"
    by (simp add: sorted_map)
  show "distinct (map (\<lambda>t. L + m + t * 12) [0..<(h - L + 12 - 1 - m) div 12])"
    by (simp add: distinct_map inj_on_def)
  have "set (filter (\<lambda>j. j mod 12 = m) [L..<h]) = {j. L \<le> j \<and> j < h \<and> j mod 12 = m}"
    by auto
  moreover have "set (map (\<lambda>t. L + m + t * 12) [0..<(h - L + 12 - 1 - m) div 12])
      = (\<lambda>t. L + m + t * 12) ` {t. t < (h - L + 12 - 1 - m) div 12}"
    by (simp only: set_map set_upt atLeast0LessThan lessThan_def)
  ultimately show "set (filter (\<lambda>j. j mod 12 = m) [L..<h])
          = set (map (\<lambda>t. L + m + t * 12) [0..<(h - L + 12 - 1 - m) div 12])"
    using every_twelfth_set[OF assms] by simp
qed


lemma calibration_months_interval:
  "calibration_months n dsy csy cey
     = [min (nat ((csy - dsy) * 12)) n ..< min (nat ((cey - dsy + 1) * 12)) n]"
  unfolding calibration_months_def
proof (rule sorted_distinct_set_unique)
  show "set (filter (\<lambda>j. csy \<le> dsy + int (j div 12) \<and> dsy + int (j div 12) \<le> cey) [0..<n])
      = set [min (nat ((csy - dsy) * 12)) n ..< min (nat ((cey - dsy + 1) * 12)) n]"
    by (auto simp: zdiv_int)
qed (simp_all add: sorted_wrt_filter)

lemma py_stride_slice:
  assumes "m < 12" and "h \<le> length sc" and "l mod 12 = 0 \<or> h \<le> l"
  shows "py_stride (take (h - l) (drop l sc)) m 12
           = map (\<lambda>j. sc ! j) (filter (\<lambda>j. j mod 12 = m) [l..<h])"
proof (cases "h \<le> l")
  case True
  with assms show ?thesis by (simp add: py_stride_def)
next
  case False
  with assms have l: "l mod 12 = 0" "l < h" by auto
  have len: "length (take (h - l) (drop l sc)) = h - l"
    using assms l by simp
  have "py_stride (take (h - l) (drop l sc)) m 12
          = map (\<lambda>t. sc ! (l + m + t * 12)) [0..<(h - l + 12 - 1 - m) div 12]"
    unfolding py_stride_def len
  proof (rule map_cong[OF refl])
    fix t assume "t \<in> set [0..<(h - l + 12 - 1 - m) div 12]"
    then have "t < (h - l + 12 - 1 - m) div 12" by simp
    with assms l have "m + t * 12 < h - l" by linarith
    with assms l show "take (h - l) (drop l sc) ! (m + t * 12) = sc ! (l + m + t * 12)"
      by (simp add: add.assoc)
  qed
  also have "\<dots> = map (\<lambda>j. sc ! j) (map (\<lambda>t. l + m + t * 12) [0..<(h - l + 12 - 1 - m) div 12])"
    by (simp add: comp_def)
  also have "\<dots> = map (\<lambda>j. sc ! j) (filter (\<lambda>j. j mod 12 = m) [l..<h])"
    by (simp only: every_twelfth[OF l(1) assms(1)])
  finally show ?thesis .
qed

lemma calibration_slice:
  assumes "dsy \<le> csy" and "csy \<le> cey"
  shows "py_slice sc ((csy - dsy) * 12) ((csy - dsy) * 12 + (cey - csy + 1) * 12)
           = take (min (nat ((cey - dsy + 1) * 12)) (length sc)
                     - min (nat ((csy - dsy) * 12)) (length sc))
               (drop (min (nat ((csy - dsy) * 12)) (length sc)) sc)"
proof -
  have e: "(csy - dsy) * 12 + (cey - csy + 1) * 12 = (cey - dsy + 1) * 12"
    by (simp add: algebra_simps)
  have "\<not> (csy - dsy) * 12 < 0" "\<not> (cey - dsy + 1) * 12 < 0"
    using assms by simp_all
  then show ?thesis
    unfolding e py_slice_def py_slice_bound_def Let_def by (simp only: if_False)
qed

lemma calibration_period_average_eq:
  assumes "dsy \<le> csy" and "csy \<le> cey" and "m < 12"
  shows "calibration_period_average sc dsy csy cey m = calendar_month_average sc dsy csy cey m"
proof -
  let ?l = "min (nat ((csy - dsy) * 12)) (length sc)"
  let ?h = "min (nat ((cey - dsy + 1) * 12)) (length sc)"
  have "nat ((csy - dsy) * 12) = nat (csy - dsy) * 12"
    using assms by (simp add: nat_mult_distrib)
  then have "nat ((csy - dsy) * 12) mod 12 = 0" by simp
  moreover have "nat ((csy - dsy) * 12) \<le> nat ((cey - dsy + 1) * 12)"
    using assms by simp
  ultimately have "?l mod 12 = 0 \<or> ?h \<le> ?l"
    by (cases "nat ((csy - dsy) * 12) \<le> length sc") (simp_all add: min_def)
  then have "py_stride (take (?h - ?l) (drop ?l sc)) m 12
           = map (\<lambda>j. sc ! j) (filter (\<lambda>j. j mod 12 = m) [?l..<?h])"
    using assms by (intro py_stride_slice) simp_all
  then show ?thesis
    using assms
    by (simp only: calibration_period_average_def calendar_month_average_def
        calibration_slice calibration_months_interval)
qed

lemma ratio_or_missing:
  "(if fgreater a (Fin 0) then fdiv x a else NaN)
     = (if a = Fin 0 \<or> fless a (Fin 0) then NaN else fdiv x a)"
  by (cases a; cases x) (auto simp: fgreater_def)

subsection \<open>Clipping of the fitted indices\<close>

text \<open>
  Claim C1. Whatever the fitting transform and the Thornthwaite collaborator compute,
  every value that \<open>spi_gamma\<close>, \<open>spi_pearson\<close>, \<open>spei_gamma\<close> or \<open>spei_pearson\<close> returns
  is a number of \<open>[-3.09, 3.09]\<close> or the missing marker.
\<close>

theorem fitted_indices_clipped:
  "(spi_gamma tfg precips k = Inr out1 \<longrightarrow> (\<forall>v \<in> set out1. valid_or_missing v)) \<and>
   (spi_pearson tfp precips k dsy cyi cyf = Inr out2 \<longrightarrow> (\<forall>v \<in> set out2. valid_or_missing v)) \<and>
   (spei_gamma tfg tw k precips pet_mm temps dsyo lat = Inr out3
      \<longrightarrow> (\<forall>v \<in> set out3. valid_or_missing v)) \<and>
   (spei_pearson tfp tw k dsy precips pet_mm temps lat cyi cyf = Inr out4
      \<longrightarrow> (\<forall>v \<in> set out4. valid_or_missing v))"
proof (intro conjI impI ballI)
  fix v assume "spi_gamma tfg precips k = Inr out1" "v \<in> set out1"
  then show "valid_or_missing v"
    by (auto dest!: spi_gamma_shape intro: np_clip_valid)
next
  fix v assume "spi_pearson tfp precips k dsy cyi cyf = Inr out2" "v \<in> set out2"
  then show "valid_or_missing v"
    by (auto dest!: spi_pearson_shape intro: np_clip_valid)
next
  fix v assume "spei_gamma tfg tw k precips pet_mm temps dsyo lat = Inr out3" "v \<in> set out3"
  then show "valid_or_missing v"
    by (auto dest!: spei_gamma_shape intro: np_clip_valid)
next
  fix v assume "spei_pearson tfp tw k dsy precips pet_mm temps lat cyi cyf = Inr out4"
    "v \<in> set out4"
  then show "valid_or_missing v"
    by (auto dest!: spei_pearson_shape intro: np_clip_valid)
qed

theorem fitted_indices_clipped_witness:
  "spi_gamma (\<lambda>xs. Inr xs) [Fin 5, NaN, Fin (- 7)] 1
     = Inr [Fin (309 / 100), NaN, Fin (- (309 / 100))]
   \<and> spi_pearson (\<lambda>xs y0 y1 y2. Inr xs) [Fin 5, NaN, Fin (- 7)] 1 1950 1981 2010
     = Inr [Fin (309 / 100), NaN, Fin (- (309 / 100))]
   \<and> list_all valid_or_missing [Fin (309 / 100), NaN, Fin (- (309 / 100))]
   \<and> spei_gamma (\<lambda>xs. Inr xs) (\<lambda>t l y. Inr t) 1 [Fin 5] (Some [Fin 1]) None None None
     = Inr [Fin (309 / 100)]
   \<and> spei_pearson (\<lambda>xs y0 y1 y2. Inr xs) (\<lambda>t l y. Inr t) 1 1950 [Fin 5]
        (Some [Fin 1]) None None 1981 2010
     = Inr [Fin (309 / 100)]
   \<and> list_all valid_or_missing [Fin (309 / 100)]
   \<and> spei_gamma (\<lambda>xs. Inr xs) (\<lambda>t l y. Inr t) 1 [NaN] None (Some [Fin 10]) (Some 1950)
        (Some (Fin 45))
     = Inr [NaN]
   \<and> list_all valid_or_missing [NaN]"
proof -
  have e1: "spi_gamma (\<lambda>xs. Inr xs) [Fin 5, NaN, Fin (- 7)] 1
     = Inr [Fin (309 / 100), NaN, Fin (- (309 / 100))]"
    by code_simp
  have e2: "spi_pearson (\<lambda>xs y0 y1 y2. Inr xs) [Fin 5, NaN, Fin (- 7)] 1 1950 1981 2010
     = Inr [Fin (309 / 100), NaN, Fin (- (309 / 100))]"
    by code_simp
  have e3: "spei_gamma (\<lambda>xs. Inr xs) (\<lambda>t l y. Inr t) 1 [Fin 5] (Some [Fin 1]) None None None
     = Inr [Fin (309 / 100)]"
    by code_simp
  have e4: "spei_pearson (\<lambda>xs y0 y1 y2. Inr xs) (\<lambda>t l y. Inr t) 1 1950 [Fin 5]
        (Some [Fin 1]) None None 1981 2010
     = Inr [Fin (309 / 100)]"
    by code_simp
  have e5: "spei_gamma (\<lambda>xs. Inr xs) (\<lambda>t l y. Inr t) 1 [NaN] None (Some [Fin 10])
        (Some 1950) (Some (Fin 45))
     = Inr [NaN]"
    by code_simp
  show ?thesis
    using e1 e2 e3 e4 e5
      fitted_indices_clipped[where tfg = "\<lambda>xs. Inr xs" and precips = "[Fin 5, NaN, Fin (- 7)]"
          and k = 1 and tfp = "\<lambda>xs y0 y1 y2. Inr xs" and dsy = 1950 and cyi = 1981
          and cyf = 2010 and tw = "\<lambda>t l y. Inr t" and pet_mm = None
          and temps = None and dsyo = None and lat = None
          and ?out1.0 = "[Fin (309 / 100), NaN, Fin (- (309 / 100))]"
          and ?out2.0 = "[Fin (309 / 100), NaN, Fin (- (309 / 100))]"
          and ?out3.0 = "[]" and ?out4.0 = "[]"]
      fitted_indices_clipped[where tfg = "\<lambda>xs. Inr xs" and precips = "[Fin 5]"
          and k = 1 and tfp = "\<lambda>xs y0 y1 y2. Inr xs" and dsy = 1950 and cyi = 1981
          and cyf = 2010 and tw = "\<lambda>t l y. Inr t" and pet_mm = "Some [Fin 1]"
          and temps = None and dsyo = None and lat = None
          and ?out1.0 = "[]" and ?out2.0 = "[]"
          and ?out3.0 = "[Fin (309 / 100)]" and ?out4.0 = "[Fin (309 / 100)]"]
      fitted_indices_clipped[where tfg = "\<lambda>xs. Inr xs" and precips = "[NaN]"
          and k = 1 and tfp = "\<lambda>xs y0 y1 y2. Inr xs" and dsy = 1950 and cyi = 1981
          and cyf = 2010 and tw = "\<lambda>t l y. Inr t" and pet_mm = None
          and temps = "Some [Fin 10]" and dsyo = "Some 1950" and lat = "Some (Fin 45)"
          and ?out1.0 = "[]" and ?out2.0 = "[]"
          and ?out3.0 = "[NaN]" and ?out4.0 = "[]"]
    by simp
qed

subsection \<open>Validation of the arguments of \<open>spei_gamma\<close>\<close>

text \<open>
  The tests \<open>temps_celsius != None\<close> and \<open>pet_mm != None\<close> raise numpy's \<open>ValueError\<close>
  for an array that does not have exactly one element, whatever the other arguments
  are: on such arrays neither SPEI driver gets past its first test of the array.
\<close>

lemma spei_gamma_temps_not_one_element:
  "length temps \<noteq> 1 \<Longrightarrow>
   spei_gamma tfg tw k precips pet_mm (Some temps) dsy lat = Inl (ValueError msg_ambiguous_truth)"
  by (simp add: spei_gamma_def py_if_def array_ne_None_def)

lemma spei_gamma_pet_not_one_element:
  "length given \<noteq> 1 \<Longrightarrow>
   spei_gamma tfg tw k precips (Some given) None dsy lat = Inl (ValueError msg_ambiguous_truth)"
  by (simp add: spei_gamma_def py_if_def array_ne_None_def)

lemma spei_pearson_temps_not_one_element:
  "length temps \<noteq> 1 \<Longrightarrow>
   spei_pearson tfp tw k dsy precips pet_mm (Some temps) lat cyi cyf
     = Inl (ValueError msg_ambiguous_truth)"
  by (simp add: spei_pearson_def py_if_def array_ne_None_def)

lemma spei_pearson_pet_not_one_element:
  "length given \<noteq> 1 \<Longrightarrow>
   spei_pearson tfp tw k dsy precips (Some given) None lat cyi cyf
     = Inl (ValueError msg_ambiguous_truth)"
  by (simp add: spei_pearson_def py_if_def array_ne_None_def)

text \<open>
  Claim C3. With both a PET array and a temperature array, \<open>spei_gamma\<close> raises a
  \<open>ValueError\<close>: the one of its validation when both arrays have one element, numpy's
  from the test \<open>!= None\<close> of line 133 or 136 otherwise. With neither, no branch of the
  validation is entered: the call fails in the subtraction \<open>precips_mm - pet_mm\<close> on
  \<open>None\<close>, with a \<open>TypeError\<close> and not with an invalid-argument error.
\<close>

theorem spei_gamma_both_or_neither:
  "spei_gamma tfg tw k precips (Some pet_mm) (Some temps) dsy lat
     = Inl (ValueError (if length temps = 1 \<and> length pet_mm = 1 then msg_temperature_and_pet
                        else msg_ambiguous_truth))
   \<and> spei_gamma tfg tw k precips None None dsy lat = Inl (TypeError msg_none_operand)"
  by (simp add: spei_gamma_def py_if_def array_ne_None_def np_subtract_def)

theorem spei_gamma_both_or_neither_witness:
  "spei_gamma (\<lambda>xs. Inr xs) (\<lambda>t l y. Inr t) 3 [Fin 50, Fin 60, Fin 70]
       (Some [Fin 1, Fin 2, Fin 3]) (Some [Fin 10, Fin 11, Fin 12]) None None
     = Inl (ValueError msg_ambiguous_truth)
   \<and> spei_gamma (\<lambda>xs. Inr xs) (\<lambda>t l y. Inr t) 3 [Fin 50] (Some [Fin 1]) (Some [Fin 10]) None None
     = Inl (ValueError msg_temperature_and_pet)
   \<and> spei_gamma (\<lambda>xs. Inr xs) (\<lambda>t l y. Inr t) 3 [Fin 50, Fin 60, Fin 70] None None None None
     = Inl (TypeError msg_none_operand)"
  using spei_gamma_both_or_neither[of "\<lambda>xs. Inr xs" "\<lambda>t l y. Inr t" 3
      "[Fin 50, Fin 60, Fin 70]" "[Fin 1, Fin 2, Fin 3]" "[Fin 10, Fin 11, Fin 12]" None None]
    spei_gamma_both_or_neither[of "\<lambda>xs. Inr xs" "\<lambda>t l y. Inr t" 3
      "[Fin 50]" "[Fin 1]" "[Fin 10]" None None]
  by simp

text \<open>
  Claim C4. With a PET array and a latitude or a data start year, \<open>spei_gamma\<close> raises
  a \<open>ValueError\<close>, whatever the collaborators and the other arguments are, so nothing is
  computed. The error is the one for extraneous arguments when the PET array has one
  element and no temperature array is given, the one for giving both arrays when both
  have one element, and numpy's, from the test \<open>!= None\<close> of the array, in every other
  case.
\<close>

theorem spei_gamma_rejects_extraneous_arguments:
  assumes "pet_mm = Some given" and "latitude_degrees \<noteq> None \<or> data_start_year \<noteq> None"
  shows "spei_gamma tfg tw k precips pet_mm temps data_start_year latitude_degrees
           = Inl (ValueError
               (case temps of
                  None \<Rightarrow> if length given = 1 then msg_extraneous_gamma
                          else msg_ambiguous_truth
                | Some t \<Rightarrow> if length t = 1 \<and> length given = 1 then msg_temperature_and_pet
                            else msg_ambiguous_truth))"
  using assms by (cases temps) (auto simp: spei_gamma_def py_if_def array_ne_None_def)

theorem spei_gamma_rejects_extraneous_arguments_witness:
  "Some [Fin 1] = Some [Fin 1] \<and> Some (Fin 45) \<noteq> None
   \<and> spei_gamma (\<lambda>xs. Inr xs) (\<lambda>t l y. Inr t) 3 [Fin 50] (Some [Fin 1]) None None (Some (Fin 45))
     = Inl (ValueError msg_extraneous_gamma)
   \<and> spei_gamma (\<lambda>xs. Inr xs) (\<lambda>t l y. Inr t) 3 [Fin 50, Fin 60, Fin 70]
       (Some [Fin 1, Fin 2, Fin 3]) None None (Some (Fin 45))
     = Inl (ValueError msg_ambiguous_truth)
   \<and> spei_gamma (\<lambda>xs. Inr xs) (\<lambda>t l y. Inr t) 3 [Fin 50] (Some [Fin 1]) (Some [Fin 10])
       (Some 1950) None
     = Inl (ValueError msg_temperature_and_pet)"
  using spei_gamma_rejects_extraneous_arguments[of "Some [Fin 1]" "[Fin 1]" "Some (Fin 45)"
      None "\<lambda>xs. Inr xs" "\<lambda>t l y. Inr t" 3 "[Fin 50]" None]
    spei_gamma_rejects_extraneous_arguments[of "Some [Fin 1, Fin 2, Fin 3]"
      "[Fin 1, Fin 2, Fin 3]" "Some (Fin 45)" None "\<lambda>xs. Inr xs" "\<lambda>t l y. Inr t" 3
      "[Fin 50, Fin 60, Fin 70]" None]
    spei_gamma_rejects_extraneous_arguments[of "Some [Fin 1]" "[Fin 1]" None
      "Some 1950" "\<lambda>xs. Inr xs" "\<lambda>t l y. Inr t" 3 "[Fin 50]" "Some [Fin 10]"]
  by simp

subsection \<open>Validation of the calibration window\<close>

text \<open>
  Claim C6. \<open>percentage_of_normal\<close> raises its first \<open>ValueError\<close> when the calibration
  starts before the data, its second when the calibration years hold more months than
  the data, in both cases whatever the values and the scale are; in every other case
  no \<open>ValueError\<close> is raised, and with a positive scale an array is returned.
\<close>

theorem percentage_of_normal_validation:
  "(calibration_start_year < data_start_year \<longrightarrow>
      percentage_of_normal monthly_values k data_start_year calibration_start_year
        calibration_end_year = Inl (ValueError msg_calibration_start)) \<and>
   (data_start_year \<le> calibration_start_year
      \<and> int (length monthly_values) < (calibration_end_year - calibration_start_year + 1) * 12 \<longrightarrow>
      percentage_of_normal monthly_values k data_start_year calibration_start_year
        calibration_end_year = Inl (ValueError msg_calibration_period)) \<and>
   (data_start_year \<le> calibration_start_year
      \<and> (calibration_end_year - calibration_start_year + 1) * 12 \<le> int (length monthly_values) \<longrightarrow>
      (\<forall>msg. percentage_of_normal monthly_values k data_start_year calibration_start_year
        calibration_end_year \<noteq> Inl (ValueError msg))) \<and>
   (data_start_year \<le> calibration_start_year
      \<and> (calibration_end_year - calibration_start_year + 1) * 12 \<le> int (length monthly_values)
      \<and> 0 < k \<longrightarrow>
      (\<exists>out. percentage_of_normal monthly_values k data_start_year calibration_start_year
        calibration_end_year = Inr out))"
proof (intro conjI impI; (elim conjE)?)
  assume "0 < k" and v: "data_start_year \<le> calibration_start_year"
    "(calibration_end_year - calibration_start_year + 1) * 12 \<le> int (length monthly_values)"
  then obtain sc where "sum_to_scale monthly_values k = Inr sc"
    using sum_to_scale_positive by blast
  from percentage_of_normal_result[OF v this]
  show "\<exists>out. percentage_of_normal monthly_values k data_start_year calibration_start_year
          calibration_end_year = Inr out"
    by blast
qed (auto simp: percentage_of_normal_def Let_def sum_to_scale_no_ValueError split: sum.splits)

theorem percentage_of_normal_validation_witness:
  "(1999 :: int) < 2000
   \<and> percentage_of_normal (replicate 24 (Fin 1)) 1 2000 1999 2000
       = Inl (ValueError msg_calibration_start)
   \<and> int (length (replicate 24 (Fin 1))) < (2002 - 2000 + 1) * 12
   \<and> percentage_of_normal (replicate 24 (Fin 1)) 1 2000 2000 2002
       = Inl (ValueError msg_calibration_period)
   \<and> (2001 - 2000 + 1) * 12 \<le> int (length (replicate 24 (Fin 1)))
   \<and> percentage_of_normal (replicate 24 (Fin 1)) 1 2000 2000 2001
       \<noteq> Inl (ValueError msg_calibration_period)
   \<and> (\<exists>out. percentage_of_normal (replicate 24 (Fin 1)) 1 2000 2000 2001 = Inr out)"
  using percentage_of_normal_validation[of 1999 2000 "replicate 24 (Fin 1)" 1 2000]
    percentage_of_normal_validation[of 2000 2000 "replicate 24 (Fin 1)" 1 2002]
    percentage_of_normal_validation[of 2000 2000 "replicate 24 (Fin 1)" 1 2001]
  by simp

subsection \<open>The latitude check of \<open>pet\<close>\<close>

text \<open>
  Claim C7. When some temperature is not missing and the latitude is not a number
  strictly between \<open>-90\<close> and \<open>90\<close> (so also when it is \<open>NaN\<close>), \<open>pet\<close> raises the
  \<open>ValueError\<close> for an invalid latitude; \<open>pet(temps, 95.0, 2000)\<close> is the witness.
\<close>

theorem pet_rejects_invalid_latitude:
  assumes "\<not> list_all isnan temps" and "\<not> latitude_in_range lat"
  shows "pet tw temps lat year = Inl (ValueError msg_invalid_latitude)"
  using assms
  by (cases lat) (auto simp: pet_def np_all_isnan_def latitude_in_range_def fgreater_def)

theorem pet_rejects_invalid_latitude_witness:
  "\<not> list_all isnan [Fin 10, NaN] \<and> \<not> latitude_in_range (Fin 95)
   \<and> pet (\<lambda>t l y. Inr t) [Fin 10, NaN] (Fin 95) 2000 = Inl (ValueError msg_invalid_latitude)"
  using pet_rejects_invalid_latitude[of "[Fin 10, NaN]" "Fin 95" "\<lambda>t l y. Inr t" 2000]
  by (simp add: latitude_in_range_def)

text \<open>
  Claim C8. When every temperature is missing, \<open>pet\<close> returns the temperature array
  itself, whatever the latitude and the Thornthwaite collaborator are: the latitude is
  not checked and nothing is raised.
\<close>

theorem pet_returns_all_missing_unchanged:
  assumes "list_all isnan temps"
  shows "pet tw temps lat year = Inr temps"
  using assms by (simp add: pet_def np_all_isnan_def)

theorem pet_returns_all_missing_unchanged_witness:
  "list_all isnan [NaN, NaN, NaN]
   \<and> pet (\<lambda>t l y. Inl (ValueError [])) [NaN, NaN, NaN] (Fin 95) 2000 = Inr [NaN, NaN, NaN]"
  using pet_returns_all_missing_unchanged[of "[NaN, NaN, NaN]" "\<lambda>t l y. Inl (ValueError [])"
      "Fin 95" 2000]
  by simp

subsection \<open>Length of the result\<close>



subsection \<open>Percentage of normal\<close>

text \<open>
  Claim C5. For a calibration window that starts no earlier than the data, does not end
  before it starts and holds no more months than the data, and a positive scale,
  \<open>percentage_of_normal\<close> returns at index \<open>i\<close> the scaled sum at \<open>i\<close> divided by the
  calendar-month average of month \<open>i mod 12\<close> (the mean, missing values ignored, of the
  scaled sums of that calendar month in the calibration years), and the missing marker
  where that average is zero or negative.
\<close>

theorem percentage_of_normal_ratio_to_calendar_month_average:
  assumes "data_start_year \<le> calibration_start_year"
    and "calibration_start_year \<le> calibration_end_year"
    and "(calibration_end_year - calibration_start_year + 1) * 12 \<le> int (length monthly_values)"
    and "0 < months_scale"
  shows "\<exists>scaled out.
           sum_to_scale monthly_values months_scale = Inr scaled
           \<and> percentage_of_normal monthly_values months_scale data_start_year
                calibration_start_year calibration_end_year = Inr out
           \<and> length out = length monthly_values
           \<and> (\<forall>i < length monthly_values.
                 out ! i =
                   (let average = calendar_month_average scaled data_start_year
                                    calibration_start_year calibration_end_year (i mod 12)
                    in if average = Fin 0 \<or> fless average (Fin 0) then NaN
                       else fdiv (scaled ! i) average))"
proof -
  from assms(4) obtain scaled where sc: "sum_to_scale monthly_values months_scale = Inr scaled"
    using sum_to_scale_positive by blast
  then have len: "length scaled = length monthly_values"
    by (rule sum_to_scale_length)
  have avg: "calibration_period_average scaled data_start_year calibration_start_year
               calibration_end_year (i mod 12)
             = calendar_month_average scaled data_start_year calibration_start_year
               calibration_end_year (i mod 12)" for i
    using assms(1,2) by (rule calibration_period_average_eq) simp
  have res: "percentage_of_normal monthly_values months_scale data_start_year
               calibration_start_year calibration_end_year
             = Inr (map (\<lambda>i. let average = calendar_month_average scaled data_start_year
                                            calibration_start_year calibration_end_year (i mod 12)
                             in if average = Fin 0 \<or> fless average (Fin 0) then NaN
                                else fdiv (scaled ! i) average)
                     [0..<length monthly_values])"
    by (simp only: percentage_of_normal_result[OF assms(1,3) sc] avg ratio_or_missing Let_def len)
  show ?thesis
  proof (intro exI conjI allI impI)
    show "sum_to_scale monthly_values months_scale = Inr scaled" by (rule sc)
    show "percentage_of_normal monthly_values months_scale data_start_year
               calibration_start_year calibration_end_year
             = Inr (map (\<lambda>i. let average = calendar_month_average scaled data_start_year
                                            calibration_start_year calibration_end_year (i mod 12)
                             in if average = Fin 0 \<or> fless average (Fin 0) then NaN
                                else fdiv (scaled ! i) average)
                     [0..<length monthly_values])"
      by (rule res)
  qed (simp_all add: Let_def)
qed

theorem percentage_of_normal_ratio_to_calendar_month_average_witness:
  "(2000 :: int) \<le> 2000 \<and> (2000 :: int) \<le> 2001
   \<and> (2001 - 2000 + 1) * 12 \<le> int (length (replicate 12 (Fin 1) @ replicate 12 (Fin 3)))
   \<and> (0 :: int) < 1
   \<and> sum_to_scale (replicate 12 (Fin 1) @ replicate 12 (Fin 3)) 1
       = Inr (replicate 12 (Fin 1) @ replicate 12 (Fin 3))
   \<and> calendar_month_average (replicate 12 (Fin 1) @ replicate 12 (Fin 3)) 2000 2000 2001 (13 mod 12)
       = Fin 2
   \<and> percentage_of_normal (replicate 12 (Fin 1) @ replicate 12 (Fin 3)) 1 2000 2000 2001
       = Inr (replicate 12 (Fin (1 / 2)) @ replicate 12 (Fin (3 / 2)))
   \<and> (replicate 12 (Fin (1 / 2)) @ replicate 12 (Fin (3 / 2))) ! 13
       = fdiv ((replicate 12 (Fin 1) @ replicate 12 (Fin 3)) ! 13) (Fin 2)"
proof -
  have e1: "sum_to_scale (replicate 12 (Fin 1) @ replicate 12 (Fin 3)) 1
       = Inr (replicate 12 (Fin 1) @ replicate 12 (Fin 3))"
    by code_simp
  have e2: "calendar_month_average (replicate 12 (Fin 1) @ replicate 12 (Fin 3)) 2000 2000 2001
              (13 mod 12) = Fin 2"
    by code_simp
  have e3: "percentage_of_normal (replicate 12 (Fin 1) @ replicate 12 (Fin 3)) 1 2000 2000 2001
       = Inr (replicate 12 (Fin (1 / 2)) @ replicate 12 (Fin (3 / 2)))"
    by code_simp
  have e4: "(replicate 12 (Fin (1 / 2)) @ replicate 12 (Fin (3 / 2))) ! 13
       = fdiv ((replicate 12 (Fin 1) @ replicate 12 (Fin 3)) ! 13) (Fin 2)"
    by code_simp
  show ?thesis
    using e1 e2 e3 e4
      percentage_of_normal_ratio_to_calendar_month_average[of 2000 2000 2001
        "replicate 12 (Fin 1) @ replicate 12 (Fin 3)" 1]
    by simp
qed

text \<open>
  Claim C10. Past the two checks of the calibration window, and for a positive scale,
  \<open>percentage_of_normal\<close> returns an array whatever the values are, and the cells of a
  calendar month whose calibration average is \<open>NaN\<close> hold the missing marker.
\<close>

theorem percentage_of_normal_missing_average:
  assumes "data_start_year \<le> calibration_start_year"
    and "(calibration_end_year - calibration_start_year + 1) * 12 \<le> int (length monthly_values)"
    and "0 < months_scale"
  shows "\<exists>scaled out.
           sum_to_scale monthly_values months_scale = Inr scaled
           \<and> percentage_of_normal monthly_values months_scale data_start_year
                calibration_start_year calibration_end_year = Inr out
           \<and> length out = length monthly_values
           \<and> (\<forall>i < length monthly_values.
                 isnan (calibration_period_average scaled data_start_year
                          calibration_start_year calibration_end_year (i mod 12))
                 \<longrightarrow> out ! i = NaN)"
proof -
  from assms(3) obtain scaled where sc: "sum_to_scale monthly_values months_scale = Inr scaled"
    using sum_to_scale_positive by blast
  then have len: "length scaled = length monthly_values"
    by (rule sum_to_scale_length)
  have "isnan a \<Longrightarrow> \<not> fgreater a (Fin 0)" for a
    by (cases a) (simp_all add: fgreater_def)
  then show ?thesis
    using percentage_of_normal_result[OF assms(1,2) sc] sc len by simp
qed

theorem percentage_of_normal_missing_average_witness:
  "(2000 :: int) \<le> 2000
   \<and> (2000 - 2000 + 1) * 12 \<le> int (length (NaN # replicate 23 (Fin 2)))
   \<and> (0 :: int) < 1
   \<and> sum_to_scale (NaN # replicate 23 (Fin 2)) 1 = Inr (NaN # replicate 23 (Fin 2))
   \<and> isnan (calibration_period_average (NaN # replicate 23 (Fin 2)) 2000 2000 2000 (12 mod 12))
   \<and> percentage_of_normal (NaN # replicate 23 (Fin 2)) 1 2000 2000 2000
       = Inr (NaN # replicate 11 (Fin 1) @ NaN # replicate 11 (Fin 1))
   \<and> (NaN # replicate 11 (Fin 1) @ NaN # replicate 11 (Fin 1)) ! 12 = NaN"
proof -
  have e1: "sum_to_scale (NaN # replicate 23 (Fin 2)) 1 = Inr (NaN # replicate 23 (Fin 2))"
    by code_simp
  have e2: "isnan (calibration_period_average (NaN # replicate 23 (Fin 2)) 2000 2000 2000
              (12 mod 12))"
    by code_simp
  have e3: "percentage_of_normal (NaN # replicate 23 (Fin 2)) 1 2000 2000 2000
       = Inr (NaN # replicate 11 (Fin 1) @ NaN # replicate 11 (Fin 1))"
    by code_simp
  have e4: "(NaN # replicate 11 (Fin 1) @ NaN # replicate 11 (Fin 1)) ! 12 = NaN"
    by code_simp
  show ?thesis
    using e1 e2 e3 e4
      percentage_of_normal_missing_average[of 2000 2000 2000 "NaN # replicate 23 (Fin 2)" 1]
    by simp
qed

subsection \<open>The range of the returned values\<close>

text \<open>
  Claim C9 as stated, for every public driver, fails on \<open>percentage_of_normal\<close>: with
  two years of data from 2000, a scale of one month and the calibration year 2000, the
  months of 2001 are four times those of 2000, and the value returned for January 2001
  is \<open>4.0\<close>, outside \<open>[-3.09, 3.09]\<close>.
\<close>

theorem percentage_of_normal_not_clipped:
  "percentage_of_normal (replicate 12 (Fin 1) @ replicate 12 (Fin 4)) 1 2000 2000 2000
     = Inr (replicate 12 (Fin 1) @ replicate 12 (Fin 4))
   \<and> (replicate 12 (Fin 1) @ replicate 12 (Fin 4)) ! 12 = Fin 4
   \<and> \<not> isnan (Fin 4) \<and> \<not> in_valid_range (Fin 4)"
  by code_simp

text \<open>
  Claim C9, as amended: every value that is not missing and is returned by one of the
  fitted-index drivers \<open>spi_gamma\<close>, \<open>spi_pearson\<close>, \<open>spei_gamma\<close>, \<open>spei_pearson\<close> lies in
  \<open>[-3.09, 3.09]\<close>. The bounds are those of the indices fitted to a distribution;
  \<open>percentage_of_normal\<close> returns a ratio and does not clip it.
\<close>

theorem fitted_indices_values_in_range:
  "(spi_gamma tfg precips k = Inr out1 \<and> i1 < length out1 \<and> \<not> isnan (out1 ! i1)
      \<longrightarrow> in_valid_range (out1 ! i1)) \<and>
   (spi_pearson tfp precips k dsy cyi cyf = Inr out2 \<and> i2 < length out2 \<and> \<not> isnan (out2 ! i2)
      \<longrightarrow> in_valid_range (out2 ! i2)) \<and>
   (spei_gamma tfg tw k precips pet_mm temps dsyo lat = Inr out3 \<and> i3 < length out3
      \<and> \<not> isnan (out3 ! i3) \<longrightarrow> in_valid_range (out3 ! i3)) \<and>
   (spei_pearson tfp tw k dsy precips pet_mm temps lat cyi cyf = Inr out4 \<and> i4 < length out4
      \<and> \<not> isnan (out4 ! i4) \<longrightarrow> in_valid_range (out4 ! i4))"
proof -
  have *: "in_valid_range (out ! i)"
    if "out = take n (np_clip tv FITTED_INDEX_VALID_MIN FITTED_INDEX_VALID_MAX)"
      and "i < length out" and "\<not> isnan (out ! i)" for out n tv i
  proof -
    from that(2) have "out ! i \<in> set out" by simp
    with that(1) have "valid_or_missing (out ! i)" by (auto intro: np_clip_valid)
    with that(3) show ?thesis by (simp add: valid_or_missing_def)
  qed
  show ?thesis
  proof (intro conjI impI; elim conjE)
    assume "spi_gamma tfg precips k = Inr out1" "i1 < length out1" "\<not> isnan (out1 ! i1)"
    then show "in_valid_range (out1 ! i1)"
      using spi_gamma_shape[of tfg precips k out1] * by blast
  next
    assume "spi_pearson tfp precips k dsy cyi cyf = Inr out2" "i2 < length out2"
      "\<not> isnan (out2 ! i2)"
    then show "in_valid_range (out2 ! i2)"
      using spi_pearson_shape[of tfp precips k dsy cyi cyf out2] * by blast
  next
    assume "spei_gamma tfg tw k precips pet_mm temps dsyo lat = Inr out3" "i3 < length out3"
      "\<not> isnan (out3 ! i3)"
    then show "in_valid_range (out3 ! i3)"
      using spei_gamma_shape[of tfg tw k precips pet_mm temps dsyo lat out3] * by blast
  next
    assume "spei_pearson tfp tw k dsy precips pet_mm temps lat cyi cyf = Inr out4"
      "i4 < length out4" "\<not> isnan (out4 ! i4)"
    then show "in_valid_range (out4 ! i4)"
      using spei_pearson_shape[of tfp tw k dsy precips pet_mm temps lat cyi cyf out4] * by blast
  qed
qed

theorem fitted_indices_values_in_range_witness:
  "spi_gamma (\<lambda>xs. Inr xs) [Fin 5, NaN, Fin (- 7)] 1
     = Inr [Fin (309 / 100), NaN, Fin (- (309 / 100))]
   \<and> spi_pearson (\<lambda>xs y0 y1 y2. Inr xs) [Fin 5, NaN, Fin (- 7)] 1 1950 1981 2010
     = Inr [Fin (309 / 100), NaN, Fin (- (309 / 100))]
   \<and> (2 :: nat) < length [Fin (309 / 100), NaN, Fin (- (309 / 100))]
   \<and> \<not> isnan ([Fin (309 / 100), NaN, Fin (- (309 / 100))] ! 2)
   \<and> in_valid_range ([Fin (309 / 100), NaN, Fin (- (309 / 100))] ! 2)
   \<and> spei_gamma (\<lambda>xs. Inr xs) (\<lambda>t l y. Inr t) 1 [Fin 5] (Some [Fin 1]) None None None
     = Inr [Fin (309 / 100)]
   \<and> spei_pearson (\<lambda>xs y0 y1 y2. Inr xs) (\<lambda>t l y. Inr t) 1 1950 [Fin 5]
        (Some [Fin 1]) None None 1981 2010
     = Inr [Fin (309 / 100)]
   \<and> (0 :: nat) < length [Fin (309 / 100)]
   \<and> \<not> isnan ([Fin (309 / 100)] ! 0)
   \<and> in_valid_range ([Fin (309 / 100)] ! 0)"
proof -
  have e1: "spi_gamma (\<lambda>xs. Inr xs) [Fin 5, NaN, Fin (- 7)] 1
     = Inr [Fin (309 / 100), NaN, Fin (- (309 / 100))]"
    by code_simp
  have e2: "spi_pearson (\<lambda>xs y0 y1 y2. Inr xs) [Fin 5, NaN, Fin (- 7)] 1 1950 1981 2010
     = Inr [Fin (309 / 100), NaN, Fin (- (309 / 100))]"
    by code_simp
  have e3: "spei_gamma (\<lambda>xs. Inr xs) (\<lambda>t l y. Inr t) 1 [Fin 5] (Some [Fin 1]) None None None
     = Inr [Fin (309 / 100)]"
    by code_simp
  have e4: "spei_pearson (\<lambda>xs y0 y1 y2. Inr xs) (\<lambda>t l y. Inr t) 1 1950 [Fin 5]
        (Some [Fin 1]) None None 1981 2010
     = Inr [Fin (309 / 100)]"
    by code_simp
  show ?thesis
    using e1 e2 e3 e4
      fitted_indices_values_in_range[where tfg = "\<lambda>xs. Inr xs"
          and precips = "[Fin 5, NaN, Fin (- 7)]"
          and k = 1 and tfp = "\<lambda>xs y0 y1 y2. Inr xs" and dsy = 1950 and cyi = 1981
          and cyf = 2010 and tw = "\<lambda>t l y. Inr t" and pet_mm = None
          and temps = None and dsyo = None and lat = None
          and ?out1.0 = "[Fin (309 / 100), NaN, Fin (- (309 / 100))]" and ?i1.0 = 2
          and ?out2.0 = "[Fin (309 / 100), NaN, Fin (- (309 / 100))]" and ?i2.0 = 2
          and ?out3.0 = "[]" and ?i3.0 = 0 and ?out4.0 = "[]" and ?i4.0 = 0]
      fitted_indices_values_in_range[where tfg = "\<lambda>xs. Inr xs"
          and precips = "[Fin 5]"
          and k = 1 and tfp = "\<lambda>xs y0 y1 y2. Inr xs" and dsy = 1950 and cyi = 1981
          and cyf = 2010 and tw = "\<lambda>t l y. Inr t" and pet_mm = "Some [Fin 1]"
          and temps = None and dsyo = None and lat = None
          and ?out1.0 = "[]" and ?i1.0 = 0 and ?out2.0 = "[]" and ?i2.0 = 0
          and ?out3.0 = "[Fin (309 / 100)]" and ?i3.0 = 0
          and ?out4.0 = "[Fin (309 / 100)]" and ?i4.0 = 0]
    by simp
qed

end
